theory Spec2Isabelle
  imports Main
begin

section \<open>The blog-list backend: \<^verbatim>\<open>app.js\<close>\<close>

text \<open>
  \<^verbatim>\<open>app.js\<close> builds one Express application: four routes over the \<^verbatim>\<open>Blog\<close>
  collection, a catch-all \<^verbatim>\<open>unknownEndpoint\<close> and an \<^verbatim>\<open>errorHandler\<close>. Each route
  handler is \<^verbatim>\<open>try { ... } catch (exception) { next(exception) }\<close> around one call of the
  object-document mapper. The embedding makes the two collections an explicit state, an
  exception a value of a sum type, and what a request makes observable (a line written by
  \<^verbatim>\<open>logger.error\<close>, the response sent, an error handed on to the framework) a list of
  events in the order in which the code produces them. After \<^verbatim>\<open>next(error)\<close> the answer
  is the framework's, not the application's. The request log of \<^verbatim>\<open>morgan\<close>, the headers
  of \<^verbatim>\<open>cors\<close> and the parsing of the body by \<^verbatim>\<open>express.json\<close> are middleware before the
  routes and are left out.
\<close>

subsection \<open>Documents and collections\<close>

type_synonym oid = string

text \<open>
  Modelled from the spec: the \<^verbatim>\<open>Blog\<close> schema of \<^verbatim>\<open>./models/blog\<close> and the \<^verbatim>\<open>User\<close>
  schema of \<^verbatim>\<open>../models/user\<close> are required by the code and the tests but their files are
  not among the sources. Section 3 of the specification gives their fields: a post has
  \<^verbatim>\<open>id\<close>, \<^verbatim>\<open>title\<close> (required), \<^verbatim>\<open>author\<close>, \<^verbatim>\<open>url\<close> (required), \<^verbatim>\<open>likes\<close> (default 0) and an
  owner reference (the tests read it as \<^verbatim>\<open>user\<close>); a user has \<^verbatim>\<open>id\<close>, \<^verbatim>\<open>username\<close>,
  \<^verbatim>\<open>name\<close>, \<^verbatim>\<open>passwordHash\<close> and the list of authored posts (the tests reset it as
  \<^verbatim>\<open>blogs\<close>).
\<close>

record blog =
  blog_id :: oid
  title :: string
  author :: "string option"
  url :: string
  likes :: int
  blog_user :: "oid option"

record user =
  user_id :: oid
  username :: string
  name :: string
  passwordHash :: string
  user_blogs :: "oid list"

record state =
  blogs :: "blog list"
  users :: "user list"

subsection \<open>Requests, responses, errors\<close>

text \<open>
  The members of a parsed JSON body that the \<^verbatim>\<open>Blog\<close> schema reads, each absent or
  present with the schema's type. Members outside the schema (which a strict schema
  drops) are kept apart in \<open>req_extra\<close>.
\<close>

record blog_body =
  body_title :: "string option"
  body_author :: "string option"
  body_url :: "string option"
  body_likes :: "int option"
  body_user :: "oid option"

datatype http_method = GET | POST | PUT | DELETE

record request =
  req_method :: http_method
  req_path :: "string list"
  req_authorization :: "string option"
  req_body :: blog_body
  req_extra :: "(string \<times> string) list"

text \<open>
  What \<^verbatim>\<open>toJSON\<close> makes of a post. The owner member is either the stored reference or,
  after a \<^verbatim>\<open>populate\<close>, the owner's \<^verbatim>\<open>{id, username, name}\<close>.
\<close>

datatype user_json = UserRef oid | UserExpanded oid string string

record blog_json =
  json_id :: oid
  json_title :: string
  json_author :: "string option"
  json_url :: string
  json_likes :: int
  json_user :: "user_json option"

datatype json = JNull | JError string | JBlog blog_json | JBlogs "blog_json list"

record response =
  status :: nat
  headers :: "(string \<times> string) list"
  body :: "json option"

record error =
  err_name :: string
  err_message :: string

datatype event = Logged string | Sent response | Rethrown error

text \<open>A handler either has sent its response or has called \<^verbatim>\<open>next(exception)\<close>.\<close>

datatype outcome = Responded response | Raised error

subsection \<open>The object-document mapper\<close>

text \<open>
  The store and its query execution are an external collaborator. What the handlers rely
  on is written out here: \<^verbatim>\<open>find({})\<close> returns the collection; \<^verbatim>\<open>save\<close> validates, then
  inserts; \<^verbatim>\<open>findByIdAndDelete\<close> and \<^verbatim>\<open>findByIdAndUpdate\<close> first cast the path parameter
  to an identifier (a \<^verbatim>\<open>CastError\<close> when that fails) and return \<^verbatim>\<open>null\<close> when no document
  has it. The identifier parser \<open>cast\<close> and the identifier \<open>new_id\<close> given to a new
  document belong to the store and are parameters.
\<close>

record env =
  cast_id :: "string \<Rightarrow> oid option"
  new_id :: oid

definition toJSON :: "blog \<Rightarrow> blog_json" where
  "toJSON b = \<lparr>json_id = blog_id b, json_title = title b, json_author = author b,
     json_url = url b, json_likes = likes b, json_user = map_option UserRef (blog_user b)\<rparr>"

definition missing :: "string option \<Rightarrow> bool" where
  "missing v = (case v of None \<Rightarrow> True | Some s \<Rightarrow> s = [])"

text \<open>
  Modelled from the spec: the validators are declared in the missing schema file. By
  section 3 and section 4.2 of the specification \<^verbatim>\<open>title\<close> and \<^verbatim>\<open>url\<close> are required, and a
  missing or empty value fails; the message of a failure is the store's.
\<close>

definition required_failures :: "blog_body \<Rightarrow> string list" where
  "required_failures b =
     (if missing (body_url b) then [''url: Path `url` is required.''] else []) @
     (if missing (body_title b) then [''title: Path `title` is required.''] else [])"

fun join :: "string list \<Rightarrow> string" where
  "join [] = []"
| "join [s] = s"
| "join (s # t # ts) = s @ '', '' @ join (t # ts)"

definition ValidationError :: "string \<Rightarrow> string list \<Rightarrow> error" where
  "ValidationError prefix fs = \<lparr>err_name = ''ValidationError'',
     err_message = prefix @ '' failed: '' @ join fs\<rparr>"

definition CastError :: "string \<Rightarrow> error" where
  \<open>CastError v = \<lparr>err_name = ''CastError'',
     err_message = ''Cast to ObjectId failed for value "'' @ v @
       ''" (type string) at path "_id" for model "Blog"''\<rparr>\<close>

definition DuplicateKey :: "oid \<Rightarrow> error" where
  "DuplicateKey i = \<lparr>err_name = ''MongoServerError'',
     err_message = ''E11000 duplicate key error collection: blogs index: _id_ dup key: '' @ i\<rparr>"

text \<open>The \<^verbatim>\<open>TypeError\<close> of the runtime for \<^verbatim>\<open>result.id\<close> when \<^verbatim>\<open>result\<close> is \<^verbatim>\<open>null\<close>.\<close>

definition NullDereference :: error where
  "NullDereference = \<lparr>err_name = ''TypeError'',
     err_message = ''Cannot read properties of null (reading 'id')''\<rparr>"

definition find_all :: "state \<Rightarrow> blog list" where
  "find_all st = blogs st"

definition findById :: "oid \<Rightarrow> blog list \<Rightarrow> blog option" where
  "findById i bs = find (\<lambda>b. blog_id b = i) bs"

text \<open>\<^verbatim>\<open>new Blog(request.body)\<close>: the schema's members, \<^verbatim>\<open>likes\<close> defaulting to 0.\<close>

definition new_Blog :: "oid \<Rightarrow> blog_body \<Rightarrow> blog" where
  "new_Blog i b = \<lparr>blog_id = i,
     title = (case body_title b of None \<Rightarrow> [] | Some t \<Rightarrow> t),
     author = body_author b,
     url = (case body_url b of None \<Rightarrow> [] | Some u \<Rightarrow> u),
     likes = (case body_likes b of None \<Rightarrow> 0 | Some n \<Rightarrow> n),
     blog_user = body_user b\<rparr>"

definition save :: "oid \<Rightarrow> blog_body \<Rightarrow> state \<Rightarrow> (error + blog) \<times> state" where
  "save i b st =
     (if required_failures b \<noteq> [] then
        (Inl (ValidationError ''Blog validation'' (required_failures b)), st)
      else if findById i (blogs st) \<noteq> None then (Inl (DuplicateKey i), st)
      else (Inr (new_Blog i b), st\<lparr>blogs := blogs st @ [new_Blog i b]\<rparr>))"

definition findByIdAndDelete ::
  "(string \<Rightarrow> oid option) \<Rightarrow> string \<Rightarrow> state \<Rightarrow> (error + blog option) \<times> state" where
  "findByIdAndDelete cast p st =
     (case cast p of
        None \<Rightarrow> (Inl (CastError p), st)
      | Some i \<Rightarrow>
          (case findById i (blogs st) of
             None \<Rightarrow> (Inr None, st)
           | Some b \<Rightarrow> (Inr (Some b), st\<lparr>blogs := remove1 b (blogs st)\<rparr>)))"

text \<open>The update sets the members the body has and leaves the others.\<close>

definition apply_update :: "blog_body \<Rightarrow> blog \<Rightarrow> blog" where
  "apply_update u b = b\<lparr>
     title := (case body_title u of None \<Rightarrow> title b | Some t \<Rightarrow> t),
     author := (case body_author u of None \<Rightarrow> author b | Some a \<Rightarrow> Some a),
     url := (case body_url u of None \<Rightarrow> url b | Some v \<Rightarrow> v),
     likes := (case body_likes u of None \<Rightarrow> likes b | Some n \<Rightarrow> n),
     blog_user := (case body_user u of None \<Rightarrow> blog_user b | Some w \<Rightarrow> Some w)\<rparr>"

text \<open>With \<^verbatim>\<open>runValidators\<close> the validators run on the members being set only.\<close>

definition update_failures :: "blog_body \<Rightarrow> string list" where
  "update_failures u =
     (if body_url u = Some [] then [''url: Path `url` is required.''] else []) @
     (if body_title u = Some [] then [''title: Path `title` is required.''] else [])"

fun replace_first :: "oid \<Rightarrow> blog \<Rightarrow> blog list \<Rightarrow> blog list" where
  "replace_first i b' [] = []"
| "replace_first i b' (b # bs) = (if blog_id b = i then b' # bs else b # replace_first i b' bs)"

definition findByIdAndUpdate ::
  "(string \<Rightarrow> oid option) \<Rightarrow> string \<Rightarrow> blog_body \<Rightarrow> state \<Rightarrow> (error + blog option) \<times> state" where
  "findByIdAndUpdate cast p u st =
     (case cast p of
        None \<Rightarrow> (Inl (CastError p), st)
      | Some i \<Rightarrow>
          if update_failures u \<noteq> [] then
            (Inl (ValidationError ''Validation'' (update_failures u)), st)
          else
            (case findById i (blogs st) of
               None \<Rightarrow> (Inr None, st)
             | Some b \<Rightarrow> (Inr (Some (apply_update u b)),
                          st\<lparr>blogs := replace_first i (apply_update u b) (blogs st)\<rparr>)))"

subsection \<open>The route handlers\<close>

text \<open>
  Each handler follows its \<^verbatim>\<open>try\<close> block; the \<^verbatim>\<open>catch\<close> turns the exception of the
  store call, or of the statement after it, into \<^verbatim>\<open>next(exception)\<close>. No handler reads
  the \<^verbatim>\<open>Authorization\<close> header or the user collection.
\<close>

definition json_response :: "nat \<Rightarrow> json \<Rightarrow> response" where
  "json_response code j = \<lparr>status = code, headers = [], body = Some j\<rparr>"

definition get_blogs :: "state \<Rightarrow> outcome \<times> state" where
  "get_blogs st = (Responded (json_response 200 (JBlogs (map toJSON (find_all st)))), st)"

definition post_blogs :: "env \<Rightarrow> request \<Rightarrow> state \<Rightarrow> outcome \<times> state" where
  "post_blogs e r st =
     (case save (new_id e) (req_body r) st of
        (Inl exception, st') \<Rightarrow> (Raised exception, st')
      | (Inr result, st') \<Rightarrow> (Responded (json_response 201 (JBlog (toJSON result))), st'))"

text \<open>
  The path parameter of a matched route is a string, so the guard
  \<^verbatim>\<open>request.params.id === undefined || request.params.id === null\<close> of the source is
  never taken. With a \<^verbatim>\<open>null\<close> result the read of \<^verbatim>\<open>result.id\<close> throws before any header
  is set.
\<close>

definition delete_blog :: "env \<Rightarrow> string \<Rightarrow> state \<Rightarrow> outcome \<times> state" where
  "delete_blog e p st =
     (case findByIdAndDelete (cast_id e) p st of
        (Inl exception, st') \<Rightarrow> (Raised exception, st')
      | (Inr None, st') \<Rightarrow> (Raised NullDereference, st')
      | (Inr (Some result), st') \<Rightarrow>
          (Responded \<lparr>status = 204, headers = [(''X-Deleted-Resource'', blog_id result)],
             body = None\<rparr>, st'))"

definition put_blog :: "env \<Rightarrow> string \<Rightarrow> request \<Rightarrow> state \<Rightarrow> outcome \<times> state" where
  "put_blog e p r st =
     (case findByIdAndUpdate (cast_id e) p (req_body r) st of
        (Inl exception, st') \<Rightarrow> (Raised exception, st')
      | (Inr result, st') \<Rightarrow>
          (Responded (json_response 200
             (case result of None \<Rightarrow> JNull | Some b \<Rightarrow> JBlog (toJSON b))), st'))"

definition unknownEndpoint :: response where
  "unknownEndpoint = json_response 404 (JError ''unknown endpoint'')"

subsection \<open>The error handler\<close>

text \<open>\<^verbatim>\<open>String.prototype.includes\<close>: the argument occurs as a contiguous part.\<close>

fun str_includes :: "string \<Rightarrow> string \<Rightarrow> bool" where
  "str_includes [] sub = (sub = [])"
| "str_includes (c # cs) sub = (take (length sub) (c # cs) = sub \<or> str_includes cs sub)"

definition logger_error :: "string \<Rightarrow> event list \<Rightarrow> event list" where
  "logger_error m t = t @ [Logged m]"

definition send :: "response \<Rightarrow> event list \<Rightarrow> event list" where
  "send r t = t @ [Sent r]"

definition next_error :: "error \<Rightarrow> event list \<Rightarrow> event list" where
  "next_error ex t = t @ [Rethrown ex]"

definition errorHandler :: "error \<Rightarrow> event list \<Rightarrow> event list" where
  "errorHandler ex t =
     (let t1 = logger_error (err_message ex) t in
      if err_name ex = ''CastError'' then
        send (json_response 400 (JError ''malformatted id'')) t1
      else if err_name ex = ''ValidationError'' then
        send (json_response 400 (JError (err_message ex))) t1
      else if str_includes (err_message ex) ''Cannot read properties of null'' then
        send (json_response 404 (JError (err_message ex))) t1
      else next_error ex t1)"

subsection \<open>The application\<close>

text \<open>
  Routes are tried in the order of their registration; the path is the list of its
  segments, the literal ones as the router compares them, and \<^verbatim>\<open>:id\<close> matches one
  segment that is not empty. A request that no route takes reaches \<^verbatim>\<open>unknownEndpoint\<close>.
\<close>

definition blogs_path :: "string list \<Rightarrow> bool" where
  "blogs_path p = (p = [''api'', ''blogs''])"

definition blog_id_path :: "string list \<Rightarrow> bool" where
  "blog_id_path p = (length p = 3 \<and> take 2 p = [''api'', ''blogs''] \<and> last p \<noteq> [])"

definition route :: "env \<Rightarrow> request \<Rightarrow> state \<Rightarrow> outcome \<times> state" where
  "route e r st =
     (if req_method r = GET \<and> blogs_path (req_path r) then get_blogs st
      else if req_method r = POST \<and> blogs_path (req_path r) then post_blogs e r st
      else if req_method r = DELETE \<and> blog_id_path (req_path r) then
        delete_blog e (last (req_path r)) st
      else if req_method r = PUT \<and> blog_id_path (req_path r) then
        put_blog e (last (req_path r)) r st
      else (Responded unknownEndpoint, st))"

definition app :: "env \<Rightarrow> request \<Rightarrow> state \<Rightarrow> event list \<times> state" where
  "app e r st =
     (case route e r st of
        (Responded resp, st') \<Rightarrow> (send resp [], st')
      | (Raised exception, st') \<Rightarrow> (errorHandler exception [], st'))"

text \<open>The response a client receives: the one sent, if any.\<close>

fun reply_of :: "event list \<Rightarrow> response option" where
  "reply_of [] = None"
| "reply_of (Sent r # es) = Some r"
| "reply_of (Logged m # es) = reply_of es"
| "reply_of (Rethrown ex # es) = reply_of es"

subsection \<open>The auth gate of the specification\<close>

text \<open>
  Modelled from the spec: no source file decodes a token. Section 4.6 of the specification
  describes the gate: it decodes a bearer token to a user identity and treats a missing
  or malformed token as an absent identity. The verification of the token against the
  secret is the parameter \<open>decode\<close>. The definition serves to state which requests
  carry a valid token; \<open>route\<close> does not call it, as \<^verbatim>\<open>app.js\<close> does not.
\<close>

definition auth_gate :: "(string \<Rightarrow> oid option) \<Rightarrow> string option \<Rightarrow> oid option" where
  "auth_gate decode h =
     (case h of
        None \<Rightarrow> None
      | Some v \<Rightarrow> if take 7 v = ''Bearer '' then decode (drop 7 v) else None)"

subsection \<open>The store's invariant\<close>

text \<open>The store keeps \<^verbatim>\<open>_id\<close> unique within a collection.\<close>

definition unique_ids :: "state \<Rightarrow> bool" where
  "unique_ids st = distinct (map blog_id (blogs st))"

subsection \<open>Concrete requests\<close>

text \<open>
  One identifier parser: an identifier is written as 24 hexadecimal digits. The data
  below follow the requests of the test suites.
\<close>

definition hex_digit :: "char \<Rightarrow> bool" where
  "hex_digit c = (c \<in> set ''0123456789abcdef'')"

definition object_id :: "string \<Rightarrow> oid option" where
  "object_id s = (if length s = 24 \<and> list_all hex_digit s then Some s else None)"

definition mluukkai :: user where
  "mluukkai = \<lparr>user_id = ''64b7f0a2c3d4e5f601020301'', username = ''mluukkai'',
     name = ''Matti Luukkainen'', passwordHash = ''$2b$10$hashofmluukkai'',
     user_blogs = [''5a422a851b54a676234d17f7'']\<rparr>"

definition michael :: user where
  "michael = \<lparr>user_id = ''64b7f0a2c3d4e5f601020302'', username = ''mchan'',
     name = ''Michael Chan'', passwordHash = ''$2b$10$hashofmchan'', user_blogs = []\<rparr>"

definition blog1 :: blog where
  "blog1 = \<lparr>blog_id = ''5a422a851b54a676234d17f7'', title = ''React patterns'',
     author = Some ''Michael Chan'', url = ''https://reactpatterns.com/'', likes = 7,
     blog_user = Some ''64b7f0a2c3d4e5f601020301''\<rparr>"

definition store1 :: state where
  "store1 = \<lparr>blogs = [blog1], users = [mluukkai, michael]\<rparr>"

definition blog2 :: blog where
  "blog2 = \<lparr>blog_id = ''5a422aa71b54a676234d17f8'',
     title = ''Go To Statement Considered Harmful'', author = Some ''Edsger W. Dijkstra'',
     url = ''http://www.u.arizona.edu/~rubinson/copyright_violations/Go_To_Considered_Harmful.html'',
     likes = 5, blog_user = Some ''64b7f0a2c3d4e5f601020302''\<rparr>"

definition store2 :: state where
  "store2 = \<lparr>blogs = [blog1, blog2], users = [mluukkai, michael]\<rparr>"

definition store0 :: state where
  "store0 = \<lparr>blogs = [], users = [mluukkai, michael]\<rparr>"

definition env0 :: env where
  "env0 = \<lparr>cast_id = object_id, new_id = ''5a422a851b54a676234d17f7''\<rparr>"

definition post_react :: request where
  "post_react = \<lparr>req_method = POST, req_path = [''api'', ''blogs''],
     req_authorization = None,
     req_body = \<lparr>body_title = Some ''React patterns'', body_author = Some ''Michael Chan'',
       body_url = Some ''https://reactpatterns.com/'', body_likes = Some 7,
       body_user = Some ''64b7f0a2c3d4e5f601020301''\<rparr>,
     req_extra = []\<rparr>"

definition env1 :: env where
  "env1 = \<lparr>cast_id = object_id, new_id = ''5a422b3a1b54a676234d17f9''\<rparr>"

definition decode1 :: "string \<Rightarrow> oid option" where
  "decode1 = map_of [(''token-of-mluukkai'', ''64b7f0a2c3d4e5f601020301''),
     (''token-of-mchan'', ''64b7f0a2c3d4e5f601020302'')]"

definition no_body :: blog_body where
  "no_body = \<lparr>body_title = None, body_author = None, body_url = None, body_likes = None,
     body_user = None\<rparr>"

definition newBlog :: blog_body where
  "newBlog = \<lparr>body_title = Some ''First class tests'', body_author = Some ''Robert C. Martin'',
     body_url = Some ''http://blog.cleancoder.com/uncle-bob/2017/05/05/TestDefinitions.html'',
     body_likes = Some 10, body_user = None\<rparr>"

definition created :: blog where
  "created = \<lparr>blog_id = ''5a422b3a1b54a676234d17f9'', title = ''First class tests'',
     author = Some ''Robert C. Martin'',
     url = ''http://blog.cleancoder.com/uncle-bob/2017/05/05/TestDefinitions.html'',
     likes = 10, blog_user = None\<rparr>"

definition post_without_token :: request where
  "post_without_token = \<lparr>req_method = POST, req_path = [''api'', ''blogs''],
     req_authorization = None, req_body = newBlog, req_extra = []\<rparr>"

definition post_with_token :: request where
  "post_with_token = \<lparr>req_method = POST, req_path = [''api'', ''blogs''],
     req_authorization = Some ''Bearer token-of-mchan'', req_body = newBlog, req_extra = []\<rparr>"

definition post_empty_title :: request where
  "post_empty_title = \<lparr>req_method = POST, req_path = [''api'', ''blogs''],
     req_authorization = Some ''Bearer token-of-mchan'',
     req_body = \<lparr>body_title = Some '''', body_author = Some ''Michael Chan'',
       body_url = Some ''https://ceramicstudio.ca/upcoming-courses/'', body_likes = Some 5,
       body_user = None\<rparr>,
     req_extra = []\<rparr>"

definition delete_as_other_user :: request where
  "delete_as_other_user = \<lparr>req_method = DELETE,
     req_path = [''api'', ''blogs'', ''5a422a851b54a676234d17f7''],
     req_authorization = Some ''Bearer token-of-mchan'', req_body = no_body, req_extra = []\<rparr>"

definition delete_own :: request where
  "delete_own = \<lparr>req_method = DELETE,
     req_path = [''api'', ''blogs'', ''5a422a851b54a676234d17f7''],
     req_authorization = Some ''Bearer token-of-mluukkai'', req_body = no_body, req_extra = []\<rparr>"

definition delete_absent :: request where
  "delete_absent = \<lparr>req_method = DELETE,
     req_path = [''api'', ''blogs'', ''5a422b3a1b54a676234d17f9''],
     req_authorization = None, req_body = no_body, req_extra = []\<rparr>"

definition put_absent :: request where
  "put_absent = \<lparr>req_method = PUT,
     req_path = [''api'', ''blogs'', ''5a422b3a1b54a676234d17f9''],
     req_authorization = None, req_body = no_body\<lparr>body_likes := Some 8\<rparr>, req_extra = []\<rparr>"

definition get_all :: request where
  "get_all = \<lparr>req_method = GET, req_path = [''api'', ''blogs''],
     req_authorization = None, req_body = no_body, req_extra = []\<rparr>"

definition post_user :: request where
  "post_user = \<lparr>req_method = POST, req_path = [''api'', ''users''],
     req_authorization = None, req_body = no_body,
     req_extra = [(''username'', ''root''), (''name'', ''Superuser''),
       (''password'', ''salainen'')]\<rparr>"

section \<open>Properties\<close>

subsection \<open>Strings and lookups\<close>

lemma str_includes_prefix: "str_includes (p @ s) p"
proof (cases "p @ s")
  case Nil
  then show ?thesis by simp
next
  case (Cons c cs)
  have "take (length p) (p @ s) = p" by simp
  with Cons have "take (length p) (c # cs) = p" by simp
  then have "str_includes (c # cs) p" by simp
  with Cons show ?thesis by simp
qed

lemma NullDereference_includes:
  "str_includes (err_message NullDereference) ''Cannot read properties of null''"
  by (simp add: NullDereference_def)

lemma NullDereference_name:
  "err_name NullDereference \<noteq> ''CastError'' \<and> err_name NullDereference \<noteq> ''ValidationError''"
  by (simp add: NullDereference_def)

lemma ValidationError_message:
  "str_includes (err_message (ValidationError ''Blog validation'' fs)) ''Blog validation failed''"
proof -
  have "err_message (ValidationError ''Blog validation'' fs) = ''Blog validation failed'' @ '': '' @ join fs"
    by (simp add: ValidationError_def)
  then show ?thesis by (simp only: str_includes_prefix)
qed

lemma findById_Some: "findById i bs = Some b \<Longrightarrow> b \<in> set bs \<and> blog_id b = i"
  by (auto simp: findById_def find_Some_iff)

lemma findById_None: "findById i bs = None \<longleftrightarrow> i \<notin> blog_id ` set bs"
  by (auto simp: findById_def find_None_iff)

lemma findById_remove1:
  "distinct (map blog_id bs) \<Longrightarrow> b \<in> set bs \<Longrightarrow> findById (blog_id b) (remove1 b bs) = None"
proof -
  assume d: "distinct (map blog_id bs)" and b: "b \<in> set bs"
  from d have "distinct bs" and inj: "inj_on blog_id (set bs)"
    by (simp_all add: distinct_map)
  then have "set (remove1 b bs) = set bs - {b}" by simp
  with inj b have "blog_id b \<notin> blog_id ` set (remove1 b bs)"
    by (auto dest: inj_onD)
  then show ?thesis by (simp add: findById_None)
qed

lemma oid1: "object_id ''5a422a851b54a676234d17f7'' = Some ''5a422a851b54a676234d17f7''"
  by (simp add: object_id_def hex_digit_def)

lemma oid2: "object_id ''5a422b3a1b54a676234d17f9'' = Some ''5a422b3a1b54a676234d17f9''"
  by (simp add: object_id_def hex_digit_def)

subsection \<open>The invariant is kept\<close>

text \<open>Every request leaves identifiers unique: the hypothesis of the deletion theorem
  below holds in every store reached from one where it holds.\<close>

lemma replace_first_ids:
  "blog_id b' = i \<Longrightarrow> map blog_id (replace_first i b' bs) = map blog_id bs"
  by (induction bs) auto

lemma apply_update_id: "blog_id (apply_update u b) = blog_id b"
  by (simp add: apply_update_def)

lemma save_unique_ids: "unique_ids st \<Longrightarrow> save i b st = (x, st') \<Longrightarrow> unique_ids st'"
  by (auto simp: save_def unique_ids_def findById_None new_Blog_def split: if_splits)

lemma delete_unique_ids:
  "unique_ids st \<Longrightarrow> findByIdAndDelete c p st = (x, st') \<Longrightarrow> unique_ids st'"
  by (auto simp: findByIdAndDelete_def unique_ids_def distinct_map
      split: option.splits intro: inj_on_subset)

lemma update_unique_ids:
  "unique_ids st \<Longrightarrow> findByIdAndUpdate c p u st = (x, st') \<Longrightarrow> unique_ids st'"
  by (auto simp: findByIdAndUpdate_def unique_ids_def replace_first_ids apply_update_id
      split: option.splits if_splits dest: findById_Some)

lemma route_unique_ids: "unique_ids st \<Longrightarrow> route e r st = (x, st') \<Longrightarrow> unique_ids st'"
  by (auto simp: route_def get_blogs_def post_blogs_def delete_blog_def put_blog_def
      split: if_splits prod.splits sum.splits option.splits
      dest: save_unique_ids delete_unique_ids update_unique_ids)

lemma app_unique_ids: "unique_ids st \<Longrightarrow> app e r st = (es, st') \<Longrightarrow> unique_ids st'"
  by (auto simp: app_def split: prod.splits outcome.splits dest: route_unique_ids)

subsection \<open>What no handler does\<close>

text \<open>The \<^verbatim>\<open>Authorization\<close> header has no influence on a request, and no request
  changes the user collection.\<close>

lemma handlers_ignore_authorization:
  "app e (r\<lparr>req_authorization := h\<rparr>) st = app e r st"
  by (simp add: app_def route_def post_blogs_def put_blog_def)

lemma handlers_keep_users: "app e r st = (es, st') \<Longrightarrow> users st' = users st"
  by (auto simp: app_def route_def get_blogs_def post_blogs_def delete_blog_def put_blog_def
      save_def findByIdAndDelete_def findByIdAndUpdate_def
      split: if_splits prod.splits sum.splits option.splits outcome.splits)

lemma errorHandler_status:
  "reply_of (errorHandler ex []) = Some resp \<Longrightarrow> status resp = 400 \<or> status resp = 404"
  by (auto simp: errorHandler_def Let_def logger_error_def send_def next_error_def
      json_response_def split: if_splits)

subsection \<open>The error translator\<close>

text \<open>
  Claim C5. For every error that reaches \<^verbatim>\<open>errorHandler\<close>, whatever was observable
  before: a \<^verbatim>\<open>CastError\<close> is answered with status 400 and \<^verbatim>\<open>{error: 'malformatted id'}\<close>;
  otherwise a \<^verbatim>\<open>ValidationError\<close> with status 400 and the error's message as the
  \<^verbatim>\<open>error\<close> member; otherwise an error whose message includes
  \<^verbatim>\<open>Cannot read properties of null\<close> with status 404; every other error is handed
  on by \<^verbatim>\<open>next(error)\<close> and no response is sent. In each case the message is logged
  first: the log entry is the event before the response (or before the hand-over).
\<close>

theorem errorHandler_precedence:
  "(err_name ex = ''CastError'' \<longrightarrow>
      errorHandler ex t = t @ [Logged (err_message ex),
        Sent \<lparr>status = 400, headers = [], body = Some (JError ''malformatted id'')\<rparr>]) \<and>
   (err_name ex \<noteq> ''CastError'' \<and> err_name ex = ''ValidationError'' \<longrightarrow>
      errorHandler ex t = t @ [Logged (err_message ex),
        Sent \<lparr>status = 400, headers = [], body = Some (JError (err_message ex))\<rparr>]) \<and>
   (err_name ex \<noteq> ''CastError'' \<and> err_name ex \<noteq> ''ValidationError'' \<and>
    str_includes (err_message ex) ''Cannot read properties of null'' \<longrightarrow>
      errorHandler ex t = t @ [Logged (err_message ex),
        Sent \<lparr>status = 404, headers = [], body = Some (JError (err_message ex))\<rparr>]) \<and>
   (err_name ex \<noteq> ''CastError'' \<and> err_name ex \<noteq> ''ValidationError'' \<and>
    \<not> str_includes (err_message ex) ''Cannot read properties of null'' \<longrightarrow>
      errorHandler ex t = t @ [Logged (err_message ex), Rethrown ex])"
  by (simp add: errorHandler_def Let_def logger_error_def send_def next_error_def
      json_response_def)

text \<open>One error for each of the four cases.\<close>

theorem errorHandler_precedence_witness:
  "err_name (CastError ''42'') = ''CastError'' \<and>
   errorHandler (CastError ''42'') [] = [Logged (err_message (CastError ''42'')),
     Sent \<lparr>status = 400, headers = [], body = Some (JError ''malformatted id'')\<rparr>] \<and>
   err_name (ValidationError ''Blog validation'' [''title: Path `title` is required.'']) \<noteq> ''CastError'' \<and>
   errorHandler (ValidationError ''Blog validation'' [''title: Path `title` is required.'']) [] =
     [Logged ''Blog validation failed: title: Path `title` is required.'',
      Sent \<lparr>status = 400, headers = [],
        body = Some (JError ''Blog validation failed: title: Path `title` is required.'')\<rparr>] \<and>
   str_includes (err_message NullDereference) ''Cannot read properties of null'' \<and>
   errorHandler NullDereference [] = [Logged (err_message NullDereference),
     Sent \<lparr>status = 404, headers = [], body = Some (JError (err_message NullDereference))\<rparr>] \<and>
   \<not> str_includes (err_message (DuplicateKey ''5a422a851b54a676234d17f7''))
       ''Cannot read properties of null'' \<and>
   errorHandler (DuplicateKey ''5a422a851b54a676234d17f7'') [] =
     [Logged (err_message (DuplicateKey ''5a422a851b54a676234d17f7'')),
      Rethrown (DuplicateKey ''5a422a851b54a676234d17f7'')]"
proof -
  have c: "err_name (CastError ''42'') = ''CastError''"
    by (simp add: CastError_def)
  have v: "err_name (ValidationError ''Blog validation'' [''title: Path `title` is required.'']) \<noteq> ''CastError'' \<and>
      err_name (ValidationError ''Blog validation'' [''title: Path `title` is required.'']) = ''ValidationError''"
    by (simp add: ValidationError_def)
  have vm: "err_message (ValidationError ''Blog validation'' [''title: Path `title` is required.'']) =
      ''Blog validation failed: title: Path `title` is required.''"
    by (simp add: ValidationError_def)
  have n: "err_name NullDereference \<noteq> ''CastError'' \<and> err_name NullDereference \<noteq> ''ValidationError'' \<and>
      str_includes (err_message NullDereference) ''Cannot read properties of null''"
    by (simp add: NullDereference_def)
  have d: "err_name (DuplicateKey ''5a422a851b54a676234d17f7'') \<noteq> ''CastError'' \<and>
      err_name (DuplicateKey ''5a422a851b54a676234d17f7'') \<noteq> ''ValidationError'' \<and>
      \<not> str_includes (err_message (DuplicateKey ''5a422a851b54a676234d17f7''))
        ''Cannot read properties of null''"
    by (simp add: DuplicateKey_def)
  show ?thesis
    using c v vm n d
      errorHandler_precedence [of "CastError ''42''" "[]"]
      errorHandler_precedence [of "ValidationError ''Blog validation'' [''title: Path `title` is required.'']" "[]"]
      errorHandler_precedence [of NullDereference "[]"]
      errorHandler_precedence [of "DuplicateKey ''5a422a851b54a676234d17f7''" "[]"]
    by simp
qed

subsection \<open>Creating a post\<close>

text \<open>
  Claim C8. For every \<^verbatim>\<open>POST /api/blogs\<close> request whose \<^verbatim>\<open>title\<close> or \<^verbatim>\<open>url\<close> is missing
  or empty, in every store: the response has status 400, its body is \<^verbatim>\<open>{error: m}\<close> for
  the logged message \<open>m\<close>, which contains \<^verbatim>\<open>Blog validation failed\<close>, and the state
  after the request is the state before it.
\<close>

theorem post_blogs_validation:
  assumes "req_method r = POST" and "blogs_path (req_path r)"
    and "missing (body_title (req_body r)) \<or> missing (body_url (req_body r))"
  shows "\<exists>m. app e r st =
           ([Logged m, Sent \<lparr>status = 400, headers = [], body = Some (JError m)\<rparr>], st) \<and>
         str_includes m ''Blog validation failed''"
proof -
  let ?fs = "required_failures (req_body r)"
  let ?ex = "ValidationError ''Blog validation'' ?fs"
  from assms(3) have "?fs \<noteq> []" by (auto simp: required_failures_def)
  then have "save (new_id e) (req_body r) st = (Inl ?ex, st)" by (simp add: save_def)
  then have "route e r st = (Raised ?ex, st)"
    using assms(1,2) by (simp add: route_def post_blogs_def)
  moreover have "errorHandler ?ex [] =
      [Logged (err_message ?ex), Sent \<lparr>status = 400, headers = [], body = Some (JError (err_message ?ex))\<rparr>]"
    by (simp add: errorHandler_def Let_def logger_error_def send_def json_response_def ValidationError_def)
  ultimately have "app e r st = ([Logged (err_message ?ex),
      Sent \<lparr>status = 400, headers = [], body = Some (JError (err_message ?ex))\<rparr>], st)"
    by (simp add: app_def)
  with ValidationError_message [of ?fs] show ?thesis by blast
qed

text \<open>The request of the test \<^verbatim>\<open>response 400 bad request when url or title is missed\<close>.\<close>

theorem post_blogs_validation_witness:
  "req_method post_empty_title = POST \<and> blogs_path (req_path post_empty_title) \<and>
   missing (body_title (req_body post_empty_title)) \<and>
   (\<exists>m. app env1 post_empty_title store1 =
      ([Logged m, Sent \<lparr>status = 400, headers = [], body = Some (JError m)\<rparr>], store1) \<and>
      str_includes m ''Blog validation failed'')"
proof -
  have m: "req_method post_empty_title = POST" by (simp add: post_empty_title_def)
  have p: "blogs_path (req_path post_empty_title)"
    by (simp add: post_empty_title_def blogs_path_def)
  have t: "missing (body_title (req_body post_empty_title))"
    by (simp add: post_empty_title_def missing_def)
  from t have "missing (body_title (req_body post_empty_title)) \<or>
      missing (body_url (req_body post_empty_title))" ..
  from post_blogs_validation [OF m p this, of env1 store1] m p t show ?thesis by blast
qed

text \<open>
  Claim C1, evaluated on the code. The request of the test \<^verbatim>\<open>unauthorized to add a blog\<close>
  carries no \<^verbatim>\<open>Authorization\<close> header, so the gate of the specification finds no
  identity; \<^verbatim>\<open>app.js\<close> answers it with status 201 and the created post, and the
  collection has grown by that post. The claim and the test expect status 401 and an
  unchanged collection.
\<close>

theorem post_without_token_created:
  "auth_gate decode1 (req_authorization post_without_token) = None \<and>
   app env1 post_without_token store1 =
     ([Sent \<lparr>status = 201, headers = [], body = Some (JBlog (toJSON created))\<rparr>],
      store1\<lparr>blogs := [blog1, created]\<rparr>)"
  by (simp add: auth_gate_def post_without_token_def app_def route_def blogs_path_def
      post_blogs_def save_def required_failures_def missing_def newBlog_def findById_def
      store1_def blog1_def env1_def new_Blog_def created_def send_def json_response_def)

text \<open>
  Claim C6, evaluated on the code. A request with a valid token (the gate of the
  specification resolves it to the user \<^verbatim>\<open>mchan\<close>) and a valid body is answered with
  status 201 and the created post, which is persisted; but the post has no owner, in the
  store and in the response, and the user's list of posts is as it was: the user
  collection is unchanged. The claim expects the reference appended to the owner's list
  and the owner expanded in the response.
\<close>

theorem post_with_token_no_owner:
  "auth_gate decode1 (req_authorization post_with_token) = Some (user_id michael) \<and>
   app env1 post_with_token store1 =
     ([Sent \<lparr>status = 201, headers = [], body = Some (JBlog (toJSON created))\<rparr>],
      store1\<lparr>blogs := [blog1, created]\<rparr>) \<and>
   json_user (toJSON created) = None \<and>
   users (snd (app env1 post_with_token store1)) = [mluukkai, michael] \<and>
   user_blogs michael = []"
  by (simp add: auth_gate_def decode1_def post_with_token_def app_def route_def blogs_path_def
      post_blogs_def save_def required_failures_def missing_def newBlog_def findById_def
      store1_def blog1_def env1_def new_Blog_def created_def send_def json_response_def
      michael_def toJSON_def)

subsection \<open>Deleting a post\<close>

text \<open>
  Claim C9. For every \<^verbatim>\<open>DELETE /api/blogs/:id\<close> request, in a store with unique
  identifiers. When the path parameter is the identifier of a stored post \<open>b\<close>, the
  request succeeds: the only event is the response with status 204, an empty body and the
  header \<^verbatim>\<open>X-Deleted-Resource\<close> holding the identifier of \<open>b\<close>, and the state after it
  is the state before with \<open>b\<close> taken out of the post collection, so that no post has
  that identifier any more, every other post is still stored and the collection is one
  shorter. And a request succeeds (its response has status 204) in that case only, with
  that response and that state.
\<close>

theorem delete_blog_success:
  assumes "req_method r = DELETE" and "blog_id_path (req_path r)" and "unique_ids st"
  shows "(\<forall>i b. cast_id e (last (req_path r)) = Some i \<and> findById i (blogs st) = Some b \<longrightarrow>
            blog_id b = i \<and> b \<in> set (blogs st) \<and>
            app e r st =
              ([Sent \<lparr>status = 204, headers = [(''X-Deleted-Resource'', blog_id b)],
                  body = None\<rparr>], st\<lparr>blogs := remove1 b (blogs st)\<rparr>) \<and>
            findById i (remove1 b (blogs st)) = None \<and>
            set (remove1 b (blogs st)) = set (blogs st) - {b} \<and>
            length (remove1 b (blogs st)) + 1 = length (blogs st)) \<and>
         (\<forall>es st' resp. app e r st = (es, st') \<and> reply_of es = Some resp \<and> status resp = 204 \<longrightarrow>
            (\<exists>b. findById (blog_id b) (blogs st) = Some b \<and>
               cast_id e (last (req_path r)) = Some (blog_id b) \<and>
               es = [Sent resp] \<and> body resp = None \<and>
               headers resp = [(''X-Deleted-Resource'', blog_id b)] \<and>
               st' = st\<lparr>blogs := remove1 b (blogs st)\<rparr> \<and>
               findById (blog_id b) (blogs st') = None \<and>
               length (blogs st') + 1 = length (blogs st) \<and>
               users st' = users st))"
proof -
  let ?p = "last (req_path r)"
  have rt: "route e r st = delete_blog e ?p st"
    using assms(1,2) by (simp add: route_def)
  have forward: "blog_id b = i \<and> b \<in> set (blogs st) \<and>
      app e r st =
        ([Sent \<lparr>status = 204, headers = [(''X-Deleted-Resource'', blog_id b)], body = None\<rparr>],
         st\<lparr>blogs := remove1 b (blogs st)\<rparr>) \<and>
      findById i (remove1 b (blogs st)) = None \<and>
      set (remove1 b (blogs st)) = set (blogs st) - {b} \<and>
      length (remove1 b (blogs st)) + 1 = length (blogs st)"
    if c: "cast_id e ?p = Some i" and f: "findById i (blogs st) = Some b" for i b
  proof -
    from f have b: "b \<in> set (blogs st)" "blog_id b = i" using findById_Some by auto
    from c f have "app e r st =
        ([Sent \<lparr>status = 204, headers = [(''X-Deleted-Resource'', blog_id b)], body = None\<rparr>],
         st\<lparr>blogs := remove1 b (blogs st)\<rparr>)"
      by (simp add: app_def rt delete_blog_def findByIdAndDelete_def send_def)
    moreover have "findById i (remove1 b (blogs st)) = None"
      using assms(3) b findById_remove1 [of "blogs st" b] by (simp add: unique_ids_def)
    moreover have "distinct (blogs st)"
      using assms(3) by (simp add: unique_ids_def distinct_map)
    then have "set (remove1 b (blogs st)) = set (blogs st) - {b}" by simp
    moreover have "length (remove1 b (blogs st)) + 1 = length (blogs st)"
      using b(1) length_pos_if_in_set [of b "blogs st"] by (simp add: length_remove1)
    ultimately show ?thesis using b by simp
  qed
  have backward: "\<exists>b. findById (blog_id b) (blogs st) = Some b \<and>
      cast_id e ?p = Some (blog_id b) \<and>
      es = [Sent resp] \<and> body resp = None \<and>
      headers resp = [(''X-Deleted-Resource'', blog_id b)] \<and>
      st' = st\<lparr>blogs := remove1 b (blogs st)\<rparr> \<and>
      findById (blog_id b) (blogs st') = None \<and>
      length (blogs st') + 1 = length (blogs st) \<and>
      users st' = users st"
    if a: "app e r st = (es, st')" and r: "reply_of es = Some resp" and s: "status resp = 204"
    for es st' resp
  proof (cases "cast_id e ?p")
    case None
    then have "app e r st = (errorHandler (CastError ?p) [], st)"
      by (simp add: app_def rt delete_blog_def findByIdAndDelete_def)
    with a r s errorHandler_status [of "CastError ?p" resp] show ?thesis by auto
  next
    case (Some i)
    show ?thesis
    proof (cases "findById i (blogs st)")
      case None
      with Some have "app e r st = (errorHandler NullDereference [], st)"
        by (simp add: app_def rt delete_blog_def findByIdAndDelete_def)
      with a r s errorHandler_status [of NullDereference resp] show ?thesis by auto
    next
      case found: (Some b)
      note fw = forward [OF Some found]
      from fw a have es: "es = [Sent \<lparr>status = 204,
          headers = [(''X-Deleted-Resource'', blog_id b)], body = None\<rparr>]"
        and st': "st' = st\<lparr>blogs := remove1 b (blogs st)\<rparr>" by simp_all
      from es r have resp: "resp = \<lparr>status = 204,
          headers = [(''X-Deleted-Resource'', blog_id b)], body = None\<rparr>" by simp
      from fw have "blog_id b = i" by simp
      with found Some fw es st' resp show ?thesis by auto
    qed
  qed
  from forward backward show ?thesis by blast
qed

text \<open>The deletion of one of two stored posts: the other post stays.\<close>

theorem delete_blog_success_witness:
  "req_method delete_own = DELETE \<and> blog_id_path (req_path delete_own) \<and>
   unique_ids store2 \<and>
   cast_id env1 (last (req_path delete_own)) = Some ''5a422a851b54a676234d17f7'' \<and>
   findById ''5a422a851b54a676234d17f7'' (blogs store2) = Some blog1 \<and>
   app env1 delete_own store2 =
     ([Sent \<lparr>status = 204, headers = [(''X-Deleted-Resource'', ''5a422a851b54a676234d17f7'')],
        body = None\<rparr>], store2\<lparr>blogs := [blog2]\<rparr>) \<and>
   findById ''5a422a851b54a676234d17f7'' [blog2] = None \<and>
   (\<exists>b. findById (blog_id b) (blogs store2) = Some b \<and>
      cast_id env1 (last (req_path delete_own)) = Some (blog_id b) \<and>
      store2\<lparr>blogs := [blog2]\<rparr> = store2\<lparr>blogs := remove1 b (blogs store2)\<rparr> \<and>
      length (blogs (store2\<lparr>blogs := [blog2]\<rparr>)) + 1 = length (blogs store2))"
proof -
  let ?resp = "\<lparr>status = 204, headers = [(''X-Deleted-Resource'', ''5a422a851b54a676234d17f7'')],
    body = None\<rparr>"
  have m: "req_method delete_own = DELETE" by (simp add: delete_own_def)
  have p: "blog_id_path (req_path delete_own)"
    by (simp add: delete_own_def blog_id_path_def)
  have u: "unique_ids store2"
    by (simp add: unique_ids_def store2_def blog1_def blog2_def)
  have c: "cast_id env1 (last (req_path delete_own)) = Some ''5a422a851b54a676234d17f7''"
    by (simp add: delete_own_def env1_def oid1)
  have f: "findById ''5a422a851b54a676234d17f7'' (blogs store2) = Some blog1"
    by (simp add: findById_def store2_def blog1_def)
  have rm: "remove1 blog1 (blogs store2) = [blog2]" by (simp add: store2_def)
  have i: "blog_id blog1 = ''5a422a851b54a676234d17f7''" by (simp add: blog1_def)
  note t = delete_blog_success [OF m p u, of env1]
  from t c f have fw: "app env1 delete_own store2 =
      ([Sent \<lparr>status = 204, headers = [(''X-Deleted-Resource'', blog_id blog1)], body = None\<rparr>],
       store2\<lparr>blogs := remove1 blog1 (blogs store2)\<rparr>) \<and>
      findById ''5a422a851b54a676234d17f7'' (remove1 blog1 (blogs store2)) = None"
    by blast
  then have a: "app env1 delete_own store2 = ([Sent ?resp], store2\<lparr>blogs := [blog2]\<rparr>)"
    and g: "findById ''5a422a851b54a676234d17f7'' [blog2] = None"
    by (simp_all add: rm i)
  have r: "reply_of [Sent ?resp] = Some ?resp" by simp
  have s: "status ?resp = 204" by simp
  from t a r s have "\<exists>b. findById (blog_id b) (blogs store2) = Some b \<and>
      cast_id env1 (last (req_path delete_own)) = Some (blog_id b) \<and>
      [Sent ?resp] = [Sent ?resp] \<and> body ?resp = None \<and>
      headers ?resp = [(''X-Deleted-Resource'', blog_id b)] \<and>
      store2\<lparr>blogs := [blog2]\<rparr> = store2\<lparr>blogs := remove1 b (blogs store2)\<rparr> \<and>
      findById (blog_id b) (blogs (store2\<lparr>blogs := [blog2]\<rparr>)) = None \<and>
      length (blogs (store2\<lparr>blogs := [blog2]\<rparr>)) + 1 = length (blogs store2) \<and>
      users (store2\<lparr>blogs := [blog2]\<rparr>) = users store2"
    by blast
  then have "\<exists>b. findById (blog_id b) (blogs store2) = Some b \<and>
      cast_id env1 (last (req_path delete_own)) = Some (blog_id b) \<and>
      store2\<lparr>blogs := [blog2]\<rparr> = store2\<lparr>blogs := remove1 b (blogs store2)\<rparr> \<and>
      length (blogs (store2\<lparr>blogs := [blog2]\<rparr>)) + 1 = length (blogs store2)"
    by blast
  with m p u c f a g show ?thesis by blast
qed

text \<open>
  Claim C10. For every \<^verbatim>\<open>DELETE /api/blogs/:id\<close> request whose path parameter is a
  well-formed identifier that no stored post has: the store call returns \<^verbatim>\<open>null\<close> and
  leaves the state; the read of \<^verbatim>\<open>result.id\<close> throws the \<^verbatim>\<open>TypeError\<close> with the message
  \<^verbatim>\<open>Cannot read properties of null (reading 'id')\<close>; the error handler logs it and
  answers with status 404, not 204; the state after the request is the state before it.
\<close>

theorem delete_blog_not_found:
  assumes "req_method r = DELETE" and "blog_id_path (req_path r)"
    and "cast_id e (last (req_path r)) = Some i" and "findById i (blogs st) = None"
  shows "findByIdAndDelete (cast_id e) (last (req_path r)) st = (Inr None, st) \<and>
         route e r st = (Raised NullDereference, st) \<and>
         err_message NullDereference = ''Cannot read properties of null (reading 'id')'' \<and>
         app e r st = ([Logged (err_message NullDereference),
           Sent \<lparr>status = 404, headers = [],
             body = Some (JError (err_message NullDereference))\<rparr>], st)"
proof -
  have d: "findByIdAndDelete (cast_id e) (last (req_path r)) st = (Inr None, st)"
    using assms(3,4) by (simp add: findByIdAndDelete_def)
  then have rt: "route e r st = (Raised NullDereference, st)"
    using assms(1,2) by (simp add: route_def delete_blog_def)
  have "errorHandler NullDereference [] = [Logged (err_message NullDereference),
      Sent \<lparr>status = 404, headers = [], body = Some (JError (err_message NullDereference))\<rparr>]"
    using NullDereference_includes NullDereference_name
    by (simp add: errorHandler_def Let_def logger_error_def send_def json_response_def)
  with d rt show ?thesis by (simp add: app_def NullDereference_def)
qed

text \<open>A well-formed identifier that the store does not hold.\<close>

theorem delete_blog_not_found_witness:
  "req_method delete_absent = DELETE \<and> blog_id_path (req_path delete_absent) \<and>
   cast_id env1 (last (req_path delete_absent)) = Some ''5a422b3a1b54a676234d17f9'' \<and>
   findById ''5a422b3a1b54a676234d17f9'' (blogs store1) = None \<and>
   route env1 delete_absent store1 = (Raised NullDereference, store1) \<and>
   app env1 delete_absent store1 =
     ([Logged ''Cannot read properties of null (reading 'id')'',
       Sent \<lparr>status = 404, headers = [],
         body = Some (JError ''Cannot read properties of null (reading 'id')'')\<rparr>], store1)"
proof -
  have m: "req_method delete_absent = DELETE" by (simp add: delete_absent_def)
  have p: "blog_id_path (req_path delete_absent)"
    by (simp add: delete_absent_def blog_id_path_def)
  have c: "cast_id env1 (last (req_path delete_absent)) = Some ''5a422b3a1b54a676234d17f9''"
    by (simp add: delete_absent_def env1_def oid2)
  have f: "findById ''5a422b3a1b54a676234d17f9'' (blogs store1) = None"
    by (simp add: findById_def store1_def blog1_def)
  from delete_blog_not_found [OF m p c f] m p c f show ?thesis by simp
qed

text \<open>
  Claim C2, evaluated on the code. The request of the test
  \<^verbatim>\<open>deletion of a blog fail with invalid user\<close> carries a token that the gate of the
  specification resolves to a user who is not the owner of the post; \<^verbatim>\<open>app.js\<close> answers
  it with status 204 and the post is removed. The claim and the test expect status 403
  and an unchanged collection.
\<close>

theorem delete_as_other_user_deleted:
  "auth_gate decode1 (req_authorization delete_as_other_user) = Some (user_id michael) \<and>
   blog_user blog1 = Some (user_id mluukkai) \<and> user_id michael \<noteq> user_id mluukkai \<and>
   app env1 delete_as_other_user store1 =
     ([Sent \<lparr>status = 204, headers = [(''X-Deleted-Resource'', blog_id blog1)], body = None\<rparr>],
      store1\<lparr>blogs := []\<rparr>)"
  by (simp add: auth_gate_def decode1_def delete_as_other_user_def app_def route_def
      blog_id_path_def delete_blog_def findByIdAndDelete_def env1_def oid1 findById_def
      store1_def blog1_def send_def michael_def mluukkai_def)

subsection \<open>Updating a post\<close>

text \<open>The first half of claim C4 holds: a path parameter that is no identifier is
  answered with status 400 and \<^verbatim>\<open>{error: 'malformatted id'}\<close>. For a well-formed
  identifier that no stored post has, the handler sends the \<^verbatim>\<open>null\<close> result with status
  200.\<close>

lemma put_blog_malformed_id:
  "req_method r = PUT \<Longrightarrow> blog_id_path (req_path r) \<Longrightarrow> cast_id e (last (req_path r)) = None \<Longrightarrow>
   app e r st = ([Logged (err_message (CastError (last (req_path r)))),
     Sent \<lparr>status = 400, headers = [], body = Some (JError ''malformatted id'')\<rparr>], st)"
  by (simp add: app_def route_def put_blog_def findByIdAndUpdate_def errorHandler_def Let_def
      logger_error_def send_def json_response_def CastError_def)

lemma put_blog_absent:
  "req_method r = PUT \<Longrightarrow> blog_id_path (req_path r) \<Longrightarrow> cast_id e (last (req_path r)) = Some i \<Longrightarrow>
   update_failures (req_body r) = [] \<Longrightarrow> findById i (blogs st) = None \<Longrightarrow>
   app e r st = ([Sent \<lparr>status = 200, headers = [], body = Some JNull\<rparr>], st)"
  by (simp add: app_def route_def put_blog_def findByIdAndUpdate_def send_def json_response_def)

text \<open>
  Claim C4, evaluated on the code. A \<^verbatim>\<open>PUT /api/blogs/:id\<close> request whose path parameter
  is a well-formed identifier that no stored post has is answered with status 200 and the
  body \<^verbatim>\<open>null\<close>; no error reaches the error handler. The claim expects status 404.
\<close>

theorem put_absent_responds_200:
  "object_id (last (req_path put_absent)) = Some ''5a422b3a1b54a676234d17f9'' \<and>
   findById ''5a422b3a1b54a676234d17f9'' (blogs store1) = None \<and>
   app env1 put_absent store1 =
     ([Sent \<lparr>status = 200, headers = [], body = Some JNull\<rparr>], store1)"
  by (simp add: put_absent_def oid2 app_def route_def blog_id_path_def put_blog_def
      findByIdAndUpdate_def env1_def update_failures_def no_body_def findById_def store1_def
      blog1_def send_def json_response_def)

subsection \<open>Listing the posts\<close>

text \<open>Every \<^verbatim>\<open>GET /api/blogs\<close> request is answered with all stored posts, in store
  order, and leaves the state as it was.\<close>

lemma get_blogs_pure:
  "req_method r = GET \<Longrightarrow> blogs_path (req_path r) \<Longrightarrow>
   app e r st = ([Sent \<lparr>status = 200, headers = [], body = Some (JBlogs (map toJSON (blogs st)))\<rparr>], st)"
  by (simp add: app_def route_def get_blogs_def find_all_def send_def json_response_def)

text \<open>The store of the evaluation below is reached by one request to the application:
  a post whose body names its owner.\<close>

lemma store1_reached: "snd (app env0 post_react store0) = store1"
  by (simp add: app_def route_def blogs_path_def post_react_def post_blogs_def save_def
      required_failures_def missing_def findById_def store0_def env0_def new_Blog_def
      store1_def blog1_def)

text \<open>
  Claim C7, evaluated on the code. The listing of a store whose post has an owner: the
  response holds every stored post and the state is unchanged, but the owner is the
  stored reference, not the owner's \<^verbatim>\<open>{id, username, name}\<close>: the handler calls
  \<^verbatim>\<open>Blog.find({})\<close> without \<^verbatim>\<open>populate\<close>. The claim expects the owner expanded, and the
  tests read \<^verbatim>\<open>user.username\<close> of a listed post.
\<close>

theorem get_all_owner_not_expanded:
  "app env1 get_all store1 =
     ([Sent \<lparr>status = 200, headers = [], body = Some (JBlogs [toJSON blog1])\<rparr>], store1) \<and>
   json_user (toJSON blog1) = Some (UserRef (user_id mluukkai)) \<and>
   json_user (toJSON blog1) \<noteq>
     Some (UserExpanded (user_id mluukkai) (username mluukkai) (name mluukkai))"
  by (simp add: get_all_def app_def route_def blogs_path_def get_blogs_def find_all_def
      store1_def send_def json_response_def toJSON_def blog1_def mluukkai_def)

subsection \<open>Registering a user\<close>

text \<open>
  Claim C3, evaluated on the code. The request of the test
  \<^verbatim>\<open>creation succeeds with a fresh username\<close> matches no route of \<^verbatim>\<open>app.js\<close> and reaches
  \<^verbatim>\<open>unknownEndpoint\<close>: status 404 with \<^verbatim>\<open>{error: 'unknown endpoint'}\<close>, and no user is
  created. The claim and the test expect status 201 with the created user.
\<close>

theorem post_user_unknown_endpoint:
  "app env1 post_user store1 =
     ([Sent \<lparr>status = 404, headers = [], body = Some (JError ''unknown endpoint'')\<rparr>], store1)"
  by (simp add: post_user_def app_def route_def blogs_path_def blog_id_path_def
      unknownEndpoint_def send_def json_response_def)

end
